theory Spec2Isabelle
  imports Main
begin

section \<open>Python outcomes\<close>

text \<open>
  The sources are Python 3 (\<^verbatim>\<open>gecco.py\<close>, \<^verbatim>\<open>modules/lexicon.py\<close>). A call either
  returns a value, raises an exception, or never returns (a lock that is never released,
  a loop that spins). Every function below that can do more than return yields a
  \<open>result\<close>; a function with an effect also yields the state it leaves behind, whatever
  the outcome.
\<close>

datatype error =
    NameError string
  | UnboundLocalError string
  | AttributeError string
  | KeyError string
  | TypeError string
  | ValueError string
  | IndexError
  | RuntimeError string
  | NotImplementedError
  | Exception string

datatype 'a result = Return 'a | Raise error | Hang

section \<open>The FoLiA document, as far as the orchestrator touches it\<close>

text \<open>
  \<^verbatim>\<open>pynlpl.formats.folia\<close> is an external library. A document is a sequence of
  elements, each of one class (the classes a module may name as its \<^verbatim>\<open>UNIT\<close>);
  \<^verbatim>\<open>select\<close> lists the elements of a class in document order. A structural edit
  is recorded in the order in which it was written; \<^verbatim>\<open>declare\<close> and \<^verbatim>\<open>save\<close>
  are recorded likewise.
\<close>

datatype kind = FoliaDocument | FoliaParagraph | FoliaSentence | FoliaWord

record element =
  el_id :: string
  el_kind :: kind
  el_text :: string
  el_sentence :: "string option"

datatype edit =
    Correction string "string list"
  | ErrorDetection string
  | Split string "string list"
  | Merge string "string list"

record document =
  elements :: "element list"
  declared :: "string list"
  edits :: "edit list"
  saved :: bool

definition select :: "document \<Rightarrow> kind \<Rightarrow> element list" where
  "select d k = filter (\<lambda>e. el_kind e = k) (elements d)"

text \<open>What a work item carries: the document itself, or one of its elements.\<close>

datatype data = WholeDocument | Element element

section \<open>Shared memory of one run: the document and the mutation lock\<close>

record mem =
  doc :: document
  lock_held :: bool

text \<open>
  \<^verbatim>\<open>threading.Lock\<close>: \<^verbatim>\<open>acquire\<close> on a held lock waits for a release; with
  nobody left to release it the call never returns. \<^verbatim>\<open>release\<close> on a free lock
  raises \<^verbatim>\<open>RuntimeError\<close>.
\<close>

definition acquire :: "mem \<Rightarrow> unit result \<times> mem" where
  "acquire s = (if lock_held s then (Hang, s) else (Return (), s\<lparr>lock_held := True\<rparr>))"

definition release :: "mem \<Rightarrow> unit result \<times> mem" where
  "release s =
     (if lock_held s then (Return (), s\<lparr>lock_held := False\<rparr>)
      else (Raise (RuntimeError ''release unlocked lock''), s))"

definition write_edit :: "edit \<Rightarrow> mem \<Rightarrow> mem" where
  "write_edit e s = s\<lparr>doc := (doc s)\<lparr>edits := edits (doc s) @ [e]\<rparr>\<rparr>"

section \<open>Settings and module descriptors\<close>

type_synonym endpoint = "string \<times> nat"

datatype str_or_list = One string | Many "string list"

datatype logger = Supplied | Stderr

text \<open>
  The settings dictionary of a module, one optional field per key that \<^verbatim>\<open>gecco.py\<close>
  reads: \<open>None\<close> is an absent key.
\<close>

record settings =
  s_servers :: "endpoint list option"
  s_source :: "str_or_list option"
  s_sources :: "string list option"
  s_model :: "str_or_list option"
  s_models :: "string list option"
  s_logfunction :: "logger option"
  s_set :: "string option"
  s_class :: "string option"
  s_annotator :: "string option"

text \<open>\<^verbatim>\<open>LineByLineClient\<close>: the constructor keeps neither \<^verbatim>\<open>host\<close> nor \<^verbatim>\<open>port\<close>.\<close>

record client =
  connected :: bool
  peer :: "endpoint option"

text \<open>
  A module object. \<open>run_method\<close> and \<open>runclient_method\<close> are the methods of the object's
  class (a subclass overrides them); they act on the shared memory, and
  \<open>runclient_method\<close> also on the client it is handed.
\<close>

record module =
  ident :: string
  classname :: string
  UNIT :: kind
  settings :: settings
  local :: bool
  sources :: "string list option"
  models :: "string list option"
  run_method :: "data \<Rightarrow> mem \<Rightarrow> unit result \<times> mem"
  runclient_method :: "client \<Rightarrow> data \<Rightarrow> mem \<Rightarrow> unit result \<times> client \<times> mem"

text \<open>\<^verbatim>\<open>Module.verifysettings\<close> (gecco.py, lines 332-361).\<close>

definition listed :: "str_or_list \<Rightarrow> string list" where
  "listed v = (case v of One s \<Rightarrow> [s] | Many ss \<Rightarrow> ss)"

definition default :: "'a \<Rightarrow> 'a option \<Rightarrow> 'a option" where
  "default d v = (case v of None \<Rightarrow> Some d | Some x \<Rightarrow> Some x)"

definition verifysettings :: "module \<Rightarrow> module" where
  "verifysettings m =
     (let st = settings m in
      m\<lparr> local := (s_servers st \<noteq> None),
         sources := (case s_source st of Some v \<Rightarrow> Some (listed v)
                     | None \<Rightarrow> (case s_sources st of Some ss \<Rightarrow> Some ss | None \<Rightarrow> sources m)),
         models := (case s_model st of Some v \<Rightarrow> Some (listed v)
                    | None \<Rightarrow> (case s_models st of Some ss \<Rightarrow> Some ss | None \<Rightarrow> models m)),
         settings := st\<lparr>
           s_logfunction := default Stderr (s_logfunction st),
           s_set := default ''https://raw.githubusercontent.com/proycon/folia/master/setdefinitions/spellingcorrection.foliaset.xml'' (s_set st),
           s_class := default ''nonworderror'' (s_class st),
           s_annotator := default (''Gecco-'' @ classname m) (s_annotator st) \<rparr> \<rparr>)"

text \<open>
  \<^verbatim>\<open>Module.__init__\<close> (lines 326-329) for the base class: \<^verbatim>\<open>UNIT\<close> is the whole
  document, \<^verbatim>\<open>run\<close> and \<^verbatim>\<open>runclient\<close> raise \<^verbatim>\<open>NotImplementedError\<close>
  (lines 409-415).
\<close>

definition Module_init :: "string \<Rightarrow> settings \<Rightarrow> module" where
  "Module_init i st =
     verifysettings
       \<lparr> ident = i, classname = ''Module'', UNIT = FoliaDocument, settings = st,
         local = False, sources = None, models = None,
         run_method = (\<lambda>d s. (Raise NotImplementedError, s)),
         runclient_method = (\<lambda>c d s. (Raise NotImplementedError, c, s)) \<rparr>"

definition no_settings :: settings where
  "no_settings =
     \<lparr> s_servers = None, s_source = None, s_sources = None, s_model = None,
       s_models = None, s_logfunction = None, s_set = None, s_class = None,
       s_annotator = None \<rparr>"

text \<open>The candidate endpoints of a module: the \<^verbatim>\<open>servers\<close> setting, none when absent.\<close>

definition endpoints :: "module \<Rightarrow> endpoint list" where
  "endpoints m = (case s_servers (settings m) of None \<Rightarrow> [] | Some es \<Rightarrow> es)"

section \<open>Module-level names\<close>

text \<open>
  A name that a function body reads and never assigns is looked up, when the body runs,
  among the globals of \<^verbatim>\<open>gecco.py\<close>. The functions below read seven names that no
  statement of \<^verbatim>\<open>gecco.py\<close> binds; the model takes their bindings as a parameter
  (\<open>None\<close>, or \<open>False\<close> for the \<^verbatim>\<open>datetime\<close> module: unbound, the read raises
  \<^verbatim>\<open>NameError\<close>). \<open>shipped\<close> is the namespace the file itself builds. An attribute
  that no statement assigns (\<^verbatim>\<open>self.doc\<close>, \<^verbatim>\<open>self.sock\<close>, \<^verbatim>\<open>socket.recv\<close>)
  raises \<^verbatim>\<open>AttributeError\<close> wherever it is read. Line 13 imports
  \<^verbatim>\<open>Queue\<close> from \<^verbatim>\<open>threading\<close>, which has none; the functions are
  modelled with \<^verbatim>\<open>Thread\<close>, \<^verbatim>\<open>Queue\<close> and \<^verbatim>\<open>Lock\<close> bound to the
  standard classes. Log lines of modules are not recorded.
\<close>

type_synonym work_item = "module \<times> data"

text \<open>\<^verbatim>\<open>Queue\<close>: \<^verbatim>\<open>put\<close> counts a task, \<^verbatim>\<open>task_done\<close> discounts one.\<close>

record queue =
  items :: "work_item list"
  unfinished :: nat

record loadbalancemaster =
  availableservers :: "endpoint list"
  minpollinterval :: int

record globals =
  g_q :: "queue option"
  g_host :: "string option"
  g_port :: "nat option"
  g_units :: "kind list option"
  g_loadbalancemaster :: "loadbalancemaster option"
  g_suggestion :: "string list option"
  g_datetime :: bool

definition shipped :: globals where
  "shipped =
     \<lparr> g_q = None, g_host = None, g_port = None, g_units = None,
       g_loadbalancemaster = None, g_suggestion = None, g_datetime = False \<rparr>"

section \<open>Endpoint selection\<close>

text \<open>
  \<^verbatim>\<open>LoadBalanceMaster.get\<close> (lines 259-261) has a docstring and a comment for a body:
  it returns Python's \<^verbatim>\<open>None\<close>.
\<close>

definition LoadBalanceMaster_get :: "loadbalancemaster \<Rightarrow> endpoint list \<Rightarrow> endpoint option" where
  "LoadBalanceMaster_get lb candidates = None"

text \<open>
  \<^verbatim>\<open>Module.findserver\<close> (lines 363-372). The parameter is called
  \<^verbatim>\<open>loadbalanceserver\<close>; the last branch reads the name \<^verbatim>\<open>loadbalancemaster\<close>.
\<close>

definition findserver :: "globals \<Rightarrow> module \<Rightarrow> endpoint option result" where
  "findserver g m =
     (if local m then Raise (Exception ''Module is local'')
      else case s_servers (settings m) of
             None \<Rightarrow> Raise (KeyError ''servers'')
           | Some es \<Rightarrow>
               if length es = 1 then Return (Some (hd es))
               else (case g_loadbalancemaster g of
                       None \<Rightarrow> Raise (NameError ''loadbalancemaster'')
                     | Some lb \<Rightarrow> Return (LoadBalanceMaster_get lb es)))"

section \<open>The line-by-line client and server handler\<close>

definition LineByLineClient_init :: "string \<Rightarrow> nat \<Rightarrow> client" where
  "LineByLineClient_init host port = \<lparr> connected = False, peer = None \<rparr>"

text \<open>
  \<^verbatim>\<open>connect\<close> (lines 275-277) reads the names \<^verbatim>\<open>host\<close> and \<^verbatim>\<open>port\<close>; the
  network is taken to accept every connection.
\<close>

definition connect :: "globals \<Rightarrow> client \<Rightarrow> unit result \<times> client" where
  "connect g c =
     (case g_host g of
        None \<Rightarrow> (Raise (NameError ''host''), c)
      | Some h \<Rightarrow>
          (case g_port g of
             None \<Rightarrow> (Raise (NameError ''port''), c)
           | Some p \<Rightarrow> (Return (), c\<lparr>peer := Some (h, p), connected := True\<rparr>)))"

text \<open>
  \<^verbatim>\<open>send\<close> (lines 283-287). \<^verbatim>\<open>msg[-1]\<close> of an empty message raises
  \<^verbatim>\<open>IndexError\<close>; of a non-empty one it is an integer, never equal to
  \<^verbatim>\<open>b"\n"\<close>, so the newline is appended; then \<^verbatim>\<open>self.sock\<close> is read, and the
  constructor assigned \<^verbatim>\<open>self.socket\<close>.
\<close>

definition send :: "globals \<Rightarrow> client \<Rightarrow> string \<Rightarrow> unit result \<times> client" where
  "send g c msg =
     (case (if connected c then (Return (), c) else connect g c) of
        (Return u, c1) \<Rightarrow>
          if msg = [] then (Raise IndexError, c1) else (Raise (AttributeError ''sock''), c1)
      | (Raise e, c1) \<Rightarrow> (Raise e, c1)
      | (Hang, c1) \<Rightarrow> (Hang, c1))"

text \<open>
  \<^verbatim>\<open>receive\<close> (lines 289-296): \<^verbatim>\<open>socket.recv\<close> names the module
  \<^verbatim>\<open>socket\<close>, which has no \<^verbatim>\<open>recv\<close>.
\<close>

definition receive :: "client \<Rightarrow> string result" where
  "receive c = Raise (AttributeError ''recv'')"

text \<open>
  \<^verbatim>\<open>communicate\<close> (lines 279-281) has no \<^verbatim>\<open>return\<close>: where it returns, it
  returns \<^verbatim>\<open>None\<close>.
\<close>

definition communicate :: "globals \<Rightarrow> client \<Rightarrow> string \<Rightarrow> string option result \<times> client" where
  "communicate g c msg =
     (case send g c msg of
        (Return u, c1) \<Rightarrow>
          (case receive c1 of
             Return answer \<Rightarrow> (Return None, c1)
           | Raise e \<Rightarrow> (Raise e, c1)
           | Hang \<Rightarrow> (Hang, c1))
      | (Raise e, c1) \<Rightarrow> (Raise e, c1)
      | (Hang, c1) \<Rightarrow> (Hang, c1))"

text \<open>
  One connection, as the handler sees it: the chunks that successive \<^verbatim>\<open>recv\<close> calls
  deliver before the peer closes (after which \<^verbatim>\<open>recv\<close> yields the empty chunk), and
  what \<^verbatim>\<open>sendall\<close> has written.
\<close>

record connection =
  incoming :: "string list"
  outgoing :: "string list"

text \<open>
  The receive loop of \<^verbatim>\<open>LineByLineServerHandler.handle\<close> (lines 305-309), with the
  local \<^verbatim>\<open>buffer\<close> as its first argument: \<open>None\<close> while unassigned. The test
  \<^verbatim>\<open>buffer[-1] == b"\n"\<close> compares an integer with a bytes object.
\<close>

fun recv_loop :: "string option \<Rightarrow> string list \<Rightarrow> string result \<times> string list" where
  "recv_loop None chunks = (Raise (UnboundLocalError ''buffer''), chunks)"
| "recv_loop (Some b) [] = (if b = [] then Raise IndexError else Hang, [])"
| "recv_loop (Some b) (c # cs) =
     (if b @ c = [] then (Raise IndexError, cs) else recv_loop (Some (b @ c)) cs)"

text \<open>
  \<^verbatim>\<open>handle\<close> (lines 303-315); \<open>server_handler\<close> is the module's. Nothing assigns
  \<^verbatim>\<open>buffer\<close> before the loop.
\<close>

definition handle :: "(string \<Rightarrow> string result) \<Rightarrow> connection \<Rightarrow> unit result \<times> connection" where
  "handle server_handler conn =
     (case recv_loop None (incoming conn) of
        (Return msg, rest) \<Rightarrow>
          (case server_handler msg of
             Return response \<Rightarrow>
               if response = [] then (Raise IndexError, conn\<lparr>incoming := rest\<rparr>)
               else (Return (),
                     conn\<lparr>incoming := rest,
                          outgoing := outgoing conn @ [response @ [CHR 0x0A]]\<rparr>)
           | Raise e \<Rightarrow> (Raise e, conn\<lparr>incoming := rest\<rparr>)
           | Hang \<Rightarrow> (Hang, conn\<lparr>incoming := rest\<rparr>))
      | (Raise e, rest) \<Rightarrow> (Raise e, conn\<lparr>incoming := rest\<rparr>)
      | (Hang, rest) \<Rightarrow> (Hang, conn\<lparr>incoming := rest\<rparr>))"

section \<open>The worker\<close>

text \<open>
  \<^verbatim>\<open>ProcessorThread\<close> (lines 29-53). The lock it is given is the one of the shared
  memory. \<^verbatim>\<open>__init__\<close> stores the queue as \<^verbatim>\<open>self.q\<close>; \<^verbatim>\<open>run\<close> reads the name
  \<^verbatim>\<open>q\<close>.
\<close>

record worker =
  q :: queue
  stop :: bool
  clients :: "endpoint \<rightharpoonup> client"

text \<open>Lines 43-49: one work item, after \<^verbatim>\<open>q.get()\<close> and before \<^verbatim>\<open>q.task_done()\<close>.\<close>

definition process_item :: "globals \<Rightarrow> work_item \<Rightarrow> worker \<Rightarrow> mem \<Rightarrow> unit result \<times> worker \<times> mem" where
  "process_item g it w s =
     (case it of (m, d) \<Rightarrow>
        if local m then (case run_method m d s of (r, s1) \<Rightarrow> (r, w, s1))
        else
          (case findserver g m of
             Raise e \<Rightarrow> (Raise e, w, s)
           | Hang \<Rightarrow> (Hang, w, s)
           | Return None \<Rightarrow> (Raise (TypeError ''cannot unpack non-iterable NoneType object''), w, s)
           | Return (Some (server, port)) \<Rightarrow>
               (case clients w (server, port) of
                  Some c \<Rightarrow>
                    (case runclient_method m c d s of
                       (r, c1, s1) \<Rightarrow> (r, w\<lparr>clients := (clients w)((server, port) \<mapsto> c1)\<rparr>, s1))
                | None \<Rightarrow>
                    (case g_host g of
                       None \<Rightarrow> (Raise (NameError ''host''), w, s)
                     | Some h \<Rightarrow>
                         (case runclient_method m (LineByLineClient_init h port) d s of
                            (r, c1, s1) \<Rightarrow>
                              (r, w\<lparr>clients := (clients w)((server, port) \<mapsto> c1)\<rparr>, s1))))))"

text \<open>
  The loop of \<^verbatim>\<open>run\<close> (lines 40-50) on the items that \<^verbatim>\<open>q\<close> holds, with the
  count of unfinished tasks, for a worker whose \<^verbatim>\<open>stop\<close> is false and a queue that
  nobody else touches: it takes the items in order; on an empty queue it tests
  \<^verbatim>\<open>q.empty()\<close> for ever. There is no \<^verbatim>\<open>try\<close>.
\<close>

fun work_loop :: "globals \<Rightarrow> work_item list \<Rightarrow> nat \<Rightarrow> worker \<Rightarrow> mem
    \<Rightarrow> unit result \<times> (work_item list \<times> nat) \<times> worker \<times> mem" where
  "work_loop g [] u w s = (Hang, ([], u), w, s)"
| "work_loop g (it # rest) u w s =
     (case process_item g it w s of
        (Return x, w1, s1) \<Rightarrow>
          if u = 0
          then (Raise (ValueError ''task_done() called too many times''), (rest, u), w1, s1)
          else work_loop g rest (u - 1) w1 s1
      | (Raise e, w1, s1) \<Rightarrow> (Raise e, (rest, u), w1, s1)
      | (Hang, w1, s1) \<Rightarrow> (Hang, (rest, u), w1, s1))"

definition ProcessorThread_run :: "globals \<Rightarrow> worker \<Rightarrow> mem \<Rightarrow> unit result \<times> globals \<times> worker \<times> mem" where
  "ProcessorThread_run g w s =
     (if stop w then (Return (), g, w, s)
      else case g_q g of
             None \<Rightarrow> (Raise (NameError ''q''), g, w, s)
           | Some qu \<Rightarrow>
               (case work_loop g (items qu) (unfinished qu) w s of
                  (r, (its, u), w1, s1) \<Rightarrow>
                    (r, g\<lparr>g_q := Some \<lparr>items = its, unfinished = u\<rparr>\<rparr>, w1, s1)))"

section \<open>The editing primitives\<close>

text \<open>
  \<^verbatim>\<open>Module.addwordsuggestions\<close> (lines 436-454). The arguments of
  \<^verbatim>\<open>word.correct\<close> are evaluated left to right, after \<^verbatim>\<open>lock.acquire()\<close>: the
  name \<^verbatim>\<open>suggestion\<close> (the parameter is \<^verbatim>\<open>suggestions\<close>), three settings, the
  name \<^verbatim>\<open>datetime\<close> (no import binds it). There is no \<^verbatim>\<open>try\<close> and no
  \<^verbatim>\<open>with\<close>: \<^verbatim>\<open>lock.release()\<close> is the last statement.
\<close>

definition addwordsuggestions :: "globals \<Rightarrow> module \<Rightarrow> element \<Rightarrow> string list \<Rightarrow> mem \<Rightarrow> unit result \<times> mem" where
  "addwordsuggestions g m word suggestions s =
     (case acquire s of
        (Return u, s1) \<Rightarrow>
          (case g_suggestion g of
             None \<Rightarrow> (Raise (NameError ''suggestion''), s1)
           | Some sg \<Rightarrow>
               if s_set (settings m) = None then (Raise (KeyError ''set''), s1)
               else if s_class (settings m) = None then (Raise (KeyError ''class''), s1)
               else if s_annotator (settings m) = None then (Raise (KeyError ''annotator''), s1)
               else if \<not> g_datetime g then (Raise (NameError ''datetime''), s1)
               else release (write_edit (Correction (el_id word) sg) s1))
      | (Raise e, s1) \<Rightarrow> (Raise e, s1)
      | (Hang, s1) \<Rightarrow> (Hang, s1))"

text \<open>
  \<^verbatim>\<open>Module.adderrordetection\<close> (lines 458-473): the first argument of
  \<^verbatim>\<open>folia.ErrorDetection\<close> is \<^verbatim>\<open>self.doc\<close>, which nothing assigns.
\<close>

definition adderrordetection :: "globals \<Rightarrow> module \<Rightarrow> element \<Rightarrow> mem \<Rightarrow> unit result \<times> mem" where
  "adderrordetection g m word s =
     (case acquire s of
        (Return u, s1) \<Rightarrow> (Raise (AttributeError ''doc''), s1)
      | (Raise e, s1) \<Rightarrow> (Raise e, s1)
      | (Hang, s1) \<Rightarrow> (Hang, s1))"

text \<open>
  \<^verbatim>\<open>Module.splitcorrection\<close> (lines 475-485): \<^verbatim>\<open>self.doc\<close> is read once per new
  word.
\<close>

definition splitcorrection :: "globals \<Rightarrow> module \<Rightarrow> element \<Rightarrow> string list \<Rightarrow> mem \<Rightarrow> unit result \<times> mem" where
  "splitcorrection g m word newwords s =
     (case acquire s of
        (Return u, s1) \<Rightarrow>
          if newwords \<noteq> [] then (Raise (AttributeError ''doc''), s1)
          else if \<not> g_datetime g then (Raise (NameError ''datetime''), s1)
          else release (write_edit (Split (el_id word) []) s1)
      | (Raise e, s1) \<Rightarrow> (Raise e, s1)
      | (Hang, s1) \<Rightarrow> (Hang, s1))"

text \<open>
  \<^verbatim>\<open>Module.mergecorrection\<close> (lines 487-500): \<^verbatim>\<open>originalwords[0]\<close>, the
  \<^verbatim>\<open>raise\<close> for a word outside any sentence, then \<^verbatim>\<open>self.doc\<close>.
\<close>

definition mergecorrection :: "globals \<Rightarrow> module \<Rightarrow> string \<Rightarrow> element list \<Rightarrow> mem \<Rightarrow> unit result \<times> mem" where
  "mergecorrection g m newword originalwords s =
     (case acquire s of
        (Return u, s1) \<Rightarrow>
          (case originalwords of
             [] \<Rightarrow> (Raise IndexError, s1)
           | w # ws \<Rightarrow>
               (case el_sentence w of
                  None \<Rightarrow> (Raise (Exception ''Expected sentence''), s1)
                | Some sentence \<Rightarrow> (Raise (AttributeError ''doc''), s1)))
      | (Raise e, s1) \<Rightarrow> (Raise e, s1)
      | (Hang, s1) \<Rightarrow> (Hang, s1))"

section \<open>The lexicon module\<close>

text \<open>
  \<^verbatim>\<open>LexiconModule\<close> (modules/lexicon.py). Its \<^verbatim>\<open>verifysettings\<close> reads every
  key below with \<^verbatim>\<open>self.settings[...]\<close>, so a constructed module has them all. The
  lexicon is a dictionary from word to frequency, \<^verbatim>\<open>_cache\<close> an ordered dictionary
  from word to a list of (key, distance) pairs; \<open>None\<close> stands for a \<^verbatim>\<open>_cache\<close>
  that was never assigned; \<^verbatim>\<open>load\<close> (not modelled) assigns an empty one on
  line 59, through the name \<^verbatim>\<open>collections\<close>, which the file does not import.
  \<^verbatim>\<open>levenshtein\<close> is \<^verbatim>\<open>pynlpl\<close>'s, a parameter here.
  A word is a sequence of characters, each standing for one code point.
\<close>

record lexicon_settings =
  maxdistance :: int
  maxlength :: int
  minlength :: int
  maxnrclosest :: int
  cachesize :: int
  suffixes :: "string list"
  prefixes :: "string list"

datatype found = NoSuggestions | Suggestions "(string \<times> int) list"

record lexicon_module =
  base :: module
  lsettings :: lexicon_settings
  lexicon :: "(string \<times> int) list"
  cache_attr :: "(string \<times> (string \<times> int) list) list option"

definition in_lexicon :: "lexicon_module \<Rightarrow> string \<Rightarrow> bool" where
  "in_lexicon m w = (map_of (lexicon m) w \<noteq> None)"

definition endswith :: "string \<Rightarrow> string \<Rightarrow> bool" where
  "endswith w x = (length x \<le> length w \<and> drop (length w - length x) w = x)"

text \<open>\<^verbatim>\<open>word[:-len(suffix)]\<close>; \<^verbatim>\<open>word[:-0]\<close> is the empty string.\<close>

definition without_suffix :: "string \<Rightarrow> string \<Rightarrow> string" where
  "without_suffix w x = (if x = [] then [] else take (length w - length x) w)"

definition suffix_known :: "lexicon_module \<Rightarrow> string \<Rightarrow> bool" where
  "suffix_known m w =
     list_ex (\<lambda>x. endswith w x \<and> in_lexicon m (without_suffix w x)) (suffixes (lsettings m))"

text \<open>Lines 103-106 test \<^verbatim>\<open>word.endswith(prefix)\<close> as well.\<close>

definition prefix_known :: "lexicon_module \<Rightarrow> string \<Rightarrow> bool" where
  "prefix_known m w =
     list_ex (\<lambda>x. endswith w x \<and> in_lexicon m (drop (length x) w)) (prefixes (lsettings m))"

text \<open>
  Lines 111-114: iterating the dictionary yields its keys, and \<^verbatim>\<open>key, freq = k\<close>
  unpacks a string of exactly two characters; \<^verbatim>\<open>self.results\<close> is assigned nowhere.
\<close>

fun scan_lexicon :: "(string \<Rightarrow> string \<Rightarrow> int \<Rightarrow> int) \<Rightarrow> int \<Rightarrow> string \<Rightarrow> string list \<Rightarrow> unit result" where
  "scan_lexicon lev maxd w [] = Return ()"
| "scan_lexicon lev maxd w (k # ks) =
     (if length k \<noteq> 2 then Raise (ValueError ''unpack'')
      else if lev w [hd k] maxd \<le> maxd then Raise (AttributeError ''results'')
      else scan_lexicon lev maxd w ks)"

text \<open>
  \<^verbatim>\<open>findclosest\<close> (lines 85-119). Line 116 subscripts the value of
  \<^verbatim>\<open>results.sort(...)\<close>, which is \<^verbatim>\<open>None\<close>; lines 117-119 (storing into the cache,
  returning the results) are never reached.
\<close>

definition findclosest :: "(string \<Rightarrow> string \<Rightarrow> int \<Rightarrow> int) \<Rightarrow> lexicon_module \<Rightarrow> string \<Rightarrow> found result \<times> lexicon_module" where
  "findclosest lev m w =
     (let l = int (length w) in
      case cache_attr m of
        None \<Rightarrow> (Raise (AttributeError ''_cache''), m)
      | Some c \<Rightarrow>
          (case map_of c w of
             Some r \<Rightarrow> (Return (Suggestions r), m)
           | None \<Rightarrow>
               if l < minlength (lsettings m) \<or> l > maxlength (lsettings m)
               then (Return NoSuggestions, m)
               else if in_lexicon m w then (Return NoSuggestions, m)
               else if suffix_known m w then (Return NoSuggestions, m)
               else if prefix_known m w then (Return NoSuggestions, m)
               else
                 (case scan_lexicon lev (maxdistance (lsettings m)) w (map fst (lexicon m)) of
                    Return u \<Rightarrow> (Raise (TypeError ''NoneType object is not subscriptable''), m)
                  | Raise e \<Rightarrow> (Raise e, m)
                  | Hang \<Rightarrow> (Hang, m))))"

text \<open>\<^verbatim>\<open>if results:\<close> of \<^verbatim>\<open>run\<close>: \<^verbatim>\<open>False\<close> and the empty list are false.\<close>

definition truthy :: "found \<Rightarrow> bool" where
  "truthy r = (case r of NoSuggestions \<Rightarrow> False | Suggestions xs \<Rightarrow> xs \<noteq> [])"

definition candidates :: "found \<Rightarrow> string list" where
  "candidates r = (case r of NoSuggestions \<Rightarrow> [] | Suggestions xs \<Rightarrow> map fst xs)"

text \<open>\<^verbatim>\<open>LexiconModule.run\<close> (lines 127-132); \<^verbatim>\<open>str(word)\<close> is the word's text.\<close>

definition lexicon_run :: "(string \<Rightarrow> string \<Rightarrow> int \<Rightarrow> int) \<Rightarrow> globals \<Rightarrow> lexicon_module \<Rightarrow> element \<Rightarrow> mem
    \<Rightarrow> unit result \<times> lexicon_module \<times> mem" where
  "lexicon_run lev g m word s =
     (case findclosest lev m (el_text word) of
        (Return r, m1) \<Rightarrow>
          if truthy r
          then (case addwordsuggestions g (base m1) word (candidates r) s of
                  (r2, s2) \<Rightarrow> (r2, m1, s2))
          else (Return (), m1, s)
      | (Raise e, m1) \<Rightarrow> (Raise e, m1, s)
      | (Hang, m1) \<Rightarrow> (Hang, m1, s))"

section \<open>The corrector\<close>

text \<open>
  A \<^verbatim>\<open>Corrector\<close>: its registry (an ordered dictionary, iterated in insertion order),
  the \<^verbatim>\<open>threads\<close> setting, and the attribute \<^verbatim>\<open>units\<close> that line 74 of
  \<^verbatim>\<open>__init__\<close> computes.
\<close>

record corrector =
  modules :: "(string \<times> module) list"
  threads :: int
  units :: "kind list"

text \<open>
  Line 74, \<^verbatim>\<open>set([m.server for m in self])\<close>, on the registry as it is then: a module
  has no attribute \<^verbatim>\<open>server\<close>. \<^verbatim>\<open>__init__\<close> runs it right after line 63 has made
  the registry empty.
\<close>

definition gather_units :: "(string \<times> module) list \<Rightarrow> kind list result" where
  "gather_units ms = (if ms = [] then Return [] else Raise (AttributeError ''server''))"

text \<open>\<^verbatim>\<open>append\<close> (lines 130-133) stores the module; \<^verbatim>\<open>units\<close> stays as it was.\<close>

definition append_module :: "corrector \<Rightarrow> string \<Rightarrow> module \<Rightarrow> corrector" where
  "append_module c i m =
     c\<lparr>modules := (if map_of (modules c) i = None then modules c @ [(i, m)]
                    else map (\<lambda>(k, v). if k = i then (k, m) else (k, v)) (modules c))\<rparr>"

text \<open>\<^verbatim>\<open>Module.init\<close> (lines 381-386) and \<^verbatim>\<open>Module.finish\<close> (lines 398-400).\<close>

definition init :: "module \<Rightarrow> document \<Rightarrow> document" where
  "init m d =
     (case s_set (settings m) of
        None \<Rightarrow> d
      | Some st \<Rightarrow>
          if st \<noteq> [] \<and> st \<notin> set (declared d) then d\<lparr>declared := declared d @ [st]\<rparr> else d)"

definition finish :: "module \<Rightarrow> document \<Rightarrow> document" where
  "finish m d = d"

text \<open>Lines 186-199, for the sequence \<open>us\<close> that iterating \<^verbatim>\<open>units\<close> yields.\<close>

definition document_items :: "module list \<Rightarrow> work_item list" where
  "document_items ms = map (\<lambda>m. (m, WholeDocument)) (filter (\<lambda>m. UNIT m = FoliaDocument) ms)"

definition unit_items :: "module list \<Rightarrow> document \<Rightarrow> kind \<Rightarrow> work_item list" where
  "unit_items ms d k =
     concat (map (\<lambda>e. map (\<lambda>m. (m, Element e)) (filter (\<lambda>m. UNIT m = k) ms)) (select d k))"

definition dispatch :: "kind list \<Rightarrow> module list \<Rightarrow> document \<Rightarrow> work_item list" where
  "dispatch us ms d =
     (if FoliaDocument \<in> set us then document_items ms else [])
     @ concat (map (\<lambda>k. if k \<noteq> FoliaDocument then unit_items ms d k else []) us)"

text \<open>
  \<^verbatim>\<open>Corrector.run\<close> (lines 141-214) on a document that is already loaded, with what
  it leaves behind: the document, the items put on the queue, the lines logged.
  \<^verbatim>\<open>queue\<close> is a local of \<^verbatim>\<open>run\<close>, assigned on line 184 and read on line 178,
  inside the loop that creates the workers; \<^verbatim>\<open>units\<close> (lines 186, 193) is a
  module-level name. Where \<^verbatim>\<open>queue.join()\<close> is reached, that loop has created no
  worker: it returns at once on an empty queue and never otherwise.
\<close>

record run_state =
  r_doc :: document
  r_queue :: "work_item list"
  r_log :: "string list"

definition queuing_lines :: "kind list \<Rightarrow> string list" where
  "queuing_lines us =
     (if FoliaDocument \<in> set us then [''Queuing modules handling''] else [])
     @ map (\<lambda>k. ''Queuing modules handling'') (filter (\<lambda>k. k \<noteq> FoliaDocument) us)"

definition Corrector_run :: "globals \<Rightarrow> corrector \<Rightarrow> document \<Rightarrow> unit result \<times> run_state" where
  "Corrector_run g c d =
     (let ms = map snd (modules c);
          d1 = fold init ms d;
          log1 = [''Initialising modules on document'', ''Initialising threads'']
      in if 0 < threads c
         then (Raise (UnboundLocalError ''queue''), \<lparr>r_doc = d1, r_queue = [], r_log = log1\<rparr>)
         else
           (case g_units g of
              None \<Rightarrow> (Raise (NameError ''units''), \<lparr>r_doc = d1, r_queue = [], r_log = log1\<rparr>)
            | Some us \<Rightarrow>
                (let its = dispatch us ms d1;
                     log2 = log1 @ queuing_lines us @ [''Processing all modules....'']
                 in if its \<noteq> []
                    then (Hang, \<lparr>r_doc = d1, r_queue = its, r_log = log2\<rparr>)
                    else (Return (),
                          \<lparr>r_doc = (fold finish ms d1)\<lparr>saved := True\<rparr>, r_queue = [],
                           r_log = log2 @ [''Finalising modules on document'',
                                           ''Processing all modules....'']\<rparr>))))"

section \<open>A worker's progress through a queue\<close>

text \<open>
  The state in which \<open>work_loop\<close> stands once it has taken the items \<open>pre\<close> in order,
  each call having returned and each item having been marked done: the count of
  unfinished tasks, the worker, the shared memory. \<open>None\<close> when one of them raised or
  never returned, or \<^verbatim>\<open>task_done\<close> had nothing left to discount.
\<close>

fun after_items :: "globals \<Rightarrow> work_item list \<Rightarrow> nat \<Rightarrow> worker \<Rightarrow> mem \<Rightarrow> (nat \<times> worker \<times> mem) option" where
  "after_items g [] u w s = Some (u, w, s)"
| "after_items g (it # rest) u w s =
     (case process_item g it w s of
        (Return x, w1, s1) \<Rightarrow> if u = 0 then None else after_items g rest (u - 1) w1 s1
      | (Raise e, w1, s1) \<Rightarrow> None
      | (Hang, w1, s1) \<Rightarrow> None)"

section \<open>Concrete inputs\<close>

definition blank :: document where
  "blank = \<lparr> elements = [], declared = [], edits = [], saved = False \<rparr>"

definition fresh :: mem where
  "fresh = \<lparr> doc = blank, lock_held = False \<rparr>"

definition idle :: worker where
  "idle = \<lparr> q = \<lparr>items = [], unfinished = 0\<rparr>, stop = False, clients = Map.empty \<rparr>"

definition helo :: element where
  "helo = \<lparr> el_id = ''w1'', el_kind = FoliaWord, el_text = ''helo'', el_sentence = None \<rparr>"

definition one_word :: document where
  "one_word = \<lparr> elements = [helo], declared = [], edits = [], saved = False \<rparr>"

text \<open>A module of a class whose \<^verbatim>\<open>UNIT\<close> is \<^verbatim>\<open>folia.Word\<close>, and a corrector that holds it.\<close>

definition word_module :: module where
  "word_module =
     (Module_init ''lexicon'' no_settings)\<lparr>classname := ''LexiconModule'', UNIT := FoliaWord\<rparr>"

definition one_module :: corrector where
  "one_module = \<lparr> modules = [(''lexicon'', word_module)], threads = 1, units = [] \<rparr>"

text \<open>
  Two modules that \<^verbatim>\<open>verifysettings\<close> marks local: one of the base class, one whose
  \<^verbatim>\<open>run\<close> flags an error on word \<^verbatim>\<open>w1\<close>.
\<close>

definition unimplemented :: module where
  "unimplemented = Module_init ''a'' (no_settings\<lparr>s_servers := Some []\<rparr>)"

definition flagging :: module where
  "flagging =
     (Module_init ''b'' (no_settings\<lparr>s_servers := Some []\<rparr>))
       \<lparr> run_method := (\<lambda>d s. (Return (), write_edit (ErrorDetection ''w1'') s)) \<rparr>"

text \<open>A module object whose flag says remote and whose settings list one endpoint.\<close>

definition remote :: module where
  "remote =
     (Module_init ''r'' no_settings)
       \<lparr> settings := no_settings\<lparr>s_servers := Some [(''alpha'', 7000)]\<rparr> \<rparr>"

definition echo :: "string \<Rightarrow> string result" where
  "echo msg = Return msg"

definition two_requests :: connection where
  "two_requests = \<lparr> incoming = [''a'' @ [CHR 0x0A], ''b'' @ [CHR 0x0A]], outgoing = [] \<rparr>"

text \<open>A loaded lexicon module: one entry, an empty cache, words of 5 to 15 characters.\<close>

definition small_lexicon :: lexicon_module where
  "small_lexicon =
     \<lparr> base = word_module,
       lsettings = \<lparr> maxdistance = 2, maxlength = 15, minlength = 5, maxnrclosest = 5,
                     cachesize = 1000, suffixes = [], prefixes = [] \<rparr>,
       lexicon = [(''hello'', 20000)],
       cache_attr = Some [] \<rparr>"

text \<open>
  The same module as a failed \<^verbatim>\<open>load\<close> leaves it: line 58 has emptied the lexicon,
  line 59 has raised on \<^verbatim>\<open>collections\<close>, and \<^verbatim>\<open>_cache\<close> is unassigned.
\<close>

definition unloaded :: lexicon_module where
  "unloaded = small_lexicon\<lparr> lexicon := [], cache_attr := None \<rparr>"

text \<open>A stand-in for \<^verbatim>\<open>levenshtein\<close> where a closed term needs one.\<close>

definition no_distance :: "string \<Rightarrow> string \<Rightarrow> int \<Rightarrow> int" where
  "no_distance a b n = 0"

definition worded :: "string \<Rightarrow> element" where
  "worded t = \<lparr> el_id = ''w1'', el_kind = FoliaWord, el_text = t, el_sentence = None \<rparr>"

section \<open>Locality and endpoint selection\<close>

lemma verifysettings_local: "local (verifysettings m) = (s_servers (settings m) \<noteq> None)"
  by (simp add: verifysettings_def Let_def)

text \<open>
  C4. After settings verification, a module is flagged local exactly when its list of
  candidate endpoints is empty. The code sets the flag to \<^verbatim>\<open>'servers' in self.settings\<close>
  (\<open>verifysettings_local\<close>): a module constructed with one endpoint is flagged local and
  keeps the endpoint, and a module constructed without the key is flagged remote and
  has none.
\<close>

theorem local_flag_follows_key:
  "local (Module_init ''m'' (no_settings\<lparr>s_servers := Some [(''localhost'', 12345)]\<rparr>))
   \<and> endpoints (Module_init ''m'' (no_settings\<lparr>s_servers := Some [(''localhost'', 12345)]\<rparr>))
       = [(''localhost'', 12345)]
   \<and> \<not> local (Module_init ''m'' no_settings)
   \<and> endpoints (Module_init ''m'' no_settings) = []"
  by (simp add: Module_init_def verifysettings_def no_settings_def endpoints_def Let_def)

text \<open>
  C5. For a module that is not local and whose settings list exactly one endpoint,
  \<^verbatim>\<open>findserver\<close> returns that endpoint. It does so whatever the module-level names
  are bound to, \<open>shipped\<close> included, where reading \<^verbatim>\<open>loadbalancemaster\<close> would raise:
  the load balancer is not consulted.
\<close>

theorem findserver_single_endpoint:
  assumes "\<not> local m" and "s_servers (settings m) = Some [e]"
  shows "findserver g m = Return (Some e)"
  using assms by (simp add: findserver_def)

theorem findserver_single_endpoint_witness:
  "\<not> local remote \<and> s_servers (settings remote) = Some [(''alpha'', 7000)]
   \<and> findserver shipped remote = Return (Some (''alpha'', 7000))"
proof -
  have a: "\<not> local remote"
    by (simp add: remote_def Module_init_def verifysettings_def no_settings_def Let_def)
  have b: "s_servers (settings remote) = Some [(''alpha'', 7000)]"
    by (simp add: remote_def)
  show ?thesis
    using a b findserver_single_endpoint [OF a b, of shipped] by simp
qed

text \<open>
  The flag and the key as \<^verbatim>\<open>verifysettings\<close> leaves them never meet these two
  premises: on a module fresh from its constructor, \<^verbatim>\<open>findserver\<close> returns no
  endpoint.
\<close>

lemma findserver_after_init: "findserver g (Module_init i st) \<noteq> Return (Some e)"
  by (simp add: findserver_def Module_init_def verifysettings_def Let_def split: option.splits)

section \<open>Dispatch\<close>

lemma run_with_workers_raises:
  "0 < threads c \<Longrightarrow> fst (Corrector_run g c d) = Raise (UnboundLocalError ''queue'')"
  by (simp add: Corrector_run_def Let_def)

lemma run_shipped_enqueues_nothing: "r_queue (snd (Corrector_run shipped c d)) = []"
  by (simp add: Corrector_run_def shipped_def Let_def)

text \<open>
  What lines 186-199 put on the queue, given the sequence \<open>us\<close> of kinds: a module and
  an element of its kind as often as the kind occurs in \<open>us\<close>, the module in the
  registry and the element in the document (once, for a set of kinds, a registry and a
  document without repetition); a document-level module and the document as often as
  the module occurs in the registry, when \<open>us\<close> holds the document kind.
\<close>

lemma count_paired:
  "count_list (map (\<lambda>m. (m, x)) (filter P ms)) (m', x')
   = (if x = x' \<and> P m' then count_list ms m' else 0)"
  by (induction ms) auto

lemma count_document_items:
  "count_list (document_items ms) (m, x)
   = (if x = WholeDocument \<and> UNIT m = FoliaDocument then count_list ms m else 0)"
  by (auto simp add: document_items_def count_paired)

lemma count_per_element:
  "count_list (concat (map (\<lambda>e. map (\<lambda>m. (m, Element e)) (filter P ms)) es)) (m, Element e)
   = (if P m then count_list ms m * count_list es e else 0)"
  by (induction es) (auto simp add: count_paired)

lemma count_per_element_document:
  "count_list (concat (map (\<lambda>e. map (\<lambda>m. (m, Element e)) (filter P ms)) es)) (m, WholeDocument) = 0"
  by (induction es) (auto simp add: count_paired)

lemma count_filter_kind:
  "count_list (filter (\<lambda>e. el_kind e = k) es) e = (if el_kind e = k then count_list es e else 0)"
  by (induction es) auto

lemma count_unit_items:
  "count_list (unit_items ms d k) (m, Element e)
   = (if UNIT m = k \<and> el_kind e = k then count_list ms m * count_list (elements d) e else 0)"
  by (simp add: unit_items_def select_def count_per_element count_filter_kind)

lemma count_unit_items_document: "count_list (unit_items ms d k) (m, WholeDocument) = 0"
  by (simp add: unit_items_def count_per_element_document)

lemma count_units_loop:
  "count_list (concat (map (\<lambda>k. if k \<noteq> FoliaDocument then unit_items ms d k else []) us)) (m, Element e)
   = (if UNIT m = el_kind e \<and> el_kind e \<noteq> FoliaDocument
      then count_list us (el_kind e) * (count_list ms m * count_list (elements d) e) else 0)"
  by (induction us) (auto simp add: count_unit_items)

lemma count_units_loop_document:
  "count_list (concat (map (\<lambda>k. if k \<noteq> FoliaDocument then unit_items ms d k else []) us)) (m, WholeDocument) = 0"
  by (induction us) (auto simp add: count_unit_items_document)

lemma dispatch_counts_element:
  "count_list (dispatch us ms d) (m, Element e)
   = (if UNIT m = el_kind e \<and> el_kind e \<noteq> FoliaDocument
      then count_list us (el_kind e) * (count_list ms m * count_list (elements d) e) else 0)"
  by (simp add: dispatch_def count_units_loop count_document_items)

lemma dispatch_counts_document:
  "count_list (dispatch us ms d) (m, WholeDocument)
   = (if UNIT m = FoliaDocument \<and> FoliaDocument \<in> set us then count_list ms m else 0)"
  by (simp add: dispatch_def count_units_loop_document count_document_items)

text \<open>
  C1. \<^verbatim>\<open>Corrector.run\<close> enqueues one work item for each module and each unit of the
  module's kind. On a corrector that holds one word-level module, for a document of one
  word, lines 186-199 would enqueue the pair (\<open>dispatch\<close>, given the kinds); \<open>run\<close>
  raises when it creates the first worker, and with no worker to create it raises on
  the name \<^verbatim>\<open>units\<close>; either way the queue holds nothing. The attribute that
  line 74 computes is empty as well.
\<close>

theorem run_enqueues_nothing:
  "dispatch [FoliaWord] (map snd (modules one_module)) one_word = [(word_module, Element helo)]
   \<and> fst (Corrector_run shipped one_module one_word) = Raise (UnboundLocalError ''queue'')
   \<and> r_queue (snd (Corrector_run shipped one_module one_word)) = []
   \<and> fst (Corrector_run shipped (one_module\<lparr>threads := 0\<rparr>) one_word) = Raise (NameError ''units'')
   \<and> r_queue (snd (Corrector_run shipped (one_module\<lparr>threads := 0\<rparr>) one_word)) = []
   \<and> gather_units [] = Return []"
  by (simp add: Corrector_run_def one_module_def shipped_def Let_def gather_units_def
      dispatch_def unit_items_def select_def one_word_def helo_def word_module_def)

text \<open>
  C6. \<^verbatim>\<open>Corrector.run\<close> waits at \<^verbatim>\<open>queue.join()\<close> while the workers run, and only
  then finishes the modules and saves. On the same corrector and document, \<open>run\<close>
  raises before it logs the line that precedes \<^verbatim>\<open>queue.join()\<close>; the document is
  not saved; and a worker, once started, raises at its first test of the queue.
\<close>

theorem run_never_reaches_barrier:
  "fst (Corrector_run shipped one_module one_word) = Raise (UnboundLocalError ''queue'')
   \<and> ''Processing all modules....'' \<notin> set (r_log (snd (Corrector_run shipped one_module one_word)))
   \<and> \<not> saved (r_doc (snd (Corrector_run shipped one_module one_word)))
   \<and> ProcessorThread_run shipped idle fresh = (Raise (NameError ''q''), shipped, idle, fresh)"
  by (simp add: Corrector_run_def one_module_def shipped_def Let_def one_word_def
      word_module_def Module_init_def verifysettings_def no_settings_def init_def default_def
      ProcessorThread_run_def idle_def)

text \<open>Where \<open>run\<close> does return, it has saved the document and the queue is empty.\<close>

lemma run_returns_drained:
  "fst (Corrector_run g c d) = Return () \<Longrightarrow>
   r_queue (snd (Corrector_run g c d)) = [] \<and> saved (r_doc (snd (Corrector_run g c d)))"
  by (cases "g_units g") (auto simp add: Corrector_run_def Let_def split: if_splits)

section \<open>The worker and exceptions\<close>

lemma unimplemented_run:
  "local unimplemented" "run_method unimplemented d s = (Raise NotImplementedError, s)"
  by (simp_all add: unimplemented_def Module_init_def verifysettings_def no_settings_def Let_def)

lemma flagging_run:
  "local flagging" "run_method flagging d s = (Return (), write_edit (ErrorDetection ''w1'') s)"
  by (simp_all add: flagging_def Module_init_def verifysettings_def no_settings_def Let_def)

lemma work_loop_raise:
  "after_items g pre u w s = Some (u1, w1, s1) \<Longrightarrow> process_item g it w1 s1 = (Raise e, w2, s2)
   \<Longrightarrow> work_loop g (pre @ it # rest) u w s = (Raise e, (rest, u1), w2, s2)"
proof (induction pre arbitrary: u w s)
  case Nil
  then show ?case by simp
next
  case (Cons a pre)
  then show ?case
    by (auto split: prod.splits result.splits if_splits)
qed

text \<open>The loop of a worker that is not stopped never ends by returning.\<close>

lemma work_loop_never_returns: "fst (work_loop g its u w s) \<noteq> Return x"
  by (induction its arbitrary: u w s) (auto split: prod.splits result.splits)

text \<open>
  C2, as the specification states it, fails: a worker whose queue holds an item of the
  base class (its \<^verbatim>\<open>run\<close> raises \<^verbatim>\<open>NotImplementedError\<close>) and then an item that
  would flag an error ends with the exception; the second item stays in the queue, no
  task is marked done, the document is untouched. With \<^verbatim>\<open>q\<close> unbound, as the file
  leaves it, the worker ends with \<^verbatim>\<open>NameError\<close> before it takes anything.
\<close>

theorem worker_ends_at_failing_item:
  "ProcessorThread_run
     (shipped\<lparr>g_q := Some \<lparr>items = [(unimplemented, WholeDocument), (flagging, WholeDocument)],
                            unfinished = 2\<rparr>\<rparr>)
     idle fresh
   = (Raise NotImplementedError,
      shipped\<lparr>g_q := Some \<lparr>items = [(flagging, WholeDocument)], unfinished = 2\<rparr>\<rparr>,
      idle, fresh)
   \<and> fst (ProcessorThread_run shipped idle fresh) = Raise (NameError ''q'')"
  by (simp add: ProcessorThread_run_def process_item_def unimplemented_run flagging_run
      idle_def shipped_def)

text \<open>
  C2, amended. \<^verbatim>\<open>ProcessorThread.run\<close> has no handler: when the name \<^verbatim>\<open>q\<close> is
  bound to a queue and the worker, having completed the items \<open>pre\<close>, takes an item
  whose processing raises, \<open>run\<close> ends with that exception. The item is not marked
  done, the items behind it stay in the queue, and worker and shared memory are as the
  failing call left them.
\<close>

theorem worker_exception_propagates:
  assumes "\<not> stop w" and "g_q g = Some qu" and "items qu = pre @ it # rest"
    and "after_items g pre (unfinished qu) w s = Some (u1, w1, s1)"
    and "process_item g it w1 s1 = (Raise e, w2, s2)"
  shows "ProcessorThread_run g w s
         = (Raise e, g\<lparr>g_q := Some \<lparr>items = rest, unfinished = u1\<rparr>\<rparr>, w2, s2)"
  using assms work_loop_raise [of g pre "unfinished qu" w s u1 w1 s1 it e w2 s2 rest]
  by (simp add: ProcessorThread_run_def)

theorem worker_exception_propagates_witness:
  "ProcessorThread_run
     (shipped\<lparr>g_q := Some \<lparr>items = [(flagging, WholeDocument), (unimplemented, WholeDocument),
                                     (flagging, WholeDocument)],
                            unfinished = 3\<rparr>\<rparr>)
     idle fresh
   = (Raise NotImplementedError,
      shipped\<lparr>g_q := Some \<lparr>items = [(flagging, WholeDocument)], unfinished = 2\<rparr>\<rparr>,
      idle, write_edit (ErrorDetection ''w1'') fresh)"
proof -
  let ?qu = "\<lparr>items = [(flagging, WholeDocument), (unimplemented, WholeDocument),
                        (flagging, WholeDocument)],
               unfinished = 3\<rparr>"
  let ?g = "shipped\<lparr>g_q := Some ?qu\<rparr>"
  let ?s = "write_edit (ErrorDetection ''w1'') fresh"
  have a: "\<not> stop idle"
    by (simp add: idle_def)
  have b: "g_q ?g = Some ?qu"
    by simp
  have c: "items ?qu
           = [(flagging, WholeDocument)] @ (unimplemented, WholeDocument) # [(flagging, WholeDocument)]"
    by simp
  have d: "after_items ?g [(flagging, WholeDocument)] (unfinished ?qu) idle fresh = Some (2, idle, ?s)"
    by (simp add: process_item_def flagging_run)
  have e: "process_item ?g (unimplemented, WholeDocument) idle ?s = (Raise NotImplementedError, idle, ?s)"
    by (simp add: process_item_def unimplemented_run)
  show ?thesis
    using worker_exception_propagates [OF a b c d e] by simp
qed

text \<open>
  C9. A worker that has no client cached for the resolved endpoint builds one for that
  endpoint and caches it. On a remote module with the one endpoint
  \<^verbatim>\<open>('alpha', 7000)\<close> and an empty cache, line 48 reads the name \<^verbatim>\<open>host\<close>:
  unbound, it raises and nothing is cached; bound to some other host, the client is
  built from that host and cached under the resolved endpoint. A module that its
  constructor flagged remote has no \<^verbatim>\<open>servers\<close> setting: there the branch ends in
  \<^verbatim>\<open>findserver\<close>.
\<close>

theorem client_built_from_host_name:
  "findserver shipped remote = Return (Some (''alpha'', 7000))
   \<and> process_item shipped (remote, Element helo) idle fresh = (Raise (NameError ''host''), idle, fresh)
   \<and> process_item shipped (Module_init ''r'' no_settings, Element helo) idle fresh
     = (Raise (KeyError ''servers''), idle, fresh)
   \<and> clients (fst (snd (process_item (shipped\<lparr>g_host := Some ''beta''\<rparr>) (remote, Element helo) idle fresh)))
        (''alpha'', 7000)
     = Some (LineByLineClient_init ''beta'' 7000)"
  by (simp add: process_item_def remote_def Module_init_def verifysettings_def no_settings_def
      Let_def findserver_def shipped_def idle_def LineByLineClient_init_def)

section \<open>The wire protocol\<close>

lemma send_never_returns: "fst (send g c msg) \<noteq> Return u"
  by (simp add: send_def connect_def split: option.splits)

lemma communicate_never_returns: "fst (communicate g c msg) \<noteq> Return r"
  by (auto simp add: communicate_def send_def connect_def receive_def
      split: option.splits prod.splits result.splits)

text \<open>
  C3. \<^verbatim>\<open>communicate(msg)\<close> connects if need be, sends, reads up to the newline and
  returns the payload. On a new client and the message \<^verbatim>\<open>hello\<close> it raises in
  \<^verbatim>\<open>connect\<close>; with \<^verbatim>\<open>host\<close> and \<^verbatim>\<open>port\<close> bound it connects and raises on
  \<^verbatim>\<open>self.sock\<close>. It returns for no input (\<open>communicate_never_returns\<close>).
\<close>

theorem communicate_raises:
  "communicate shipped (LineByLineClient_init ''localhost'' 12345) ''hello''
   = (Raise (NameError ''host''), LineByLineClient_init ''localhost'' 12345)
   \<and> communicate (shipped\<lparr>g_host := Some ''localhost'', g_port := Some 12345\<rparr>)
        (LineByLineClient_init ''localhost'' 12345) ''hello''
     = (Raise (AttributeError ''sock''), \<lparr>connected = True, peer = Some (''localhost'', 12345)\<rparr>)"
  by (simp add: communicate_def send_def connect_def shipped_def LineByLineClient_init_def)

lemma handle_writes_nothing: "outgoing (snd (handle h conn)) = outgoing conn"
  by (simp add: handle_def)

text \<open>Once \<^verbatim>\<open>buffer\<close> is bound, the loop still never hands over a message.\<close>

lemma recv_loop_never_returns: "fst (recv_loop b cs) \<noteq> Return x"
  by (induction b cs rule: recv_loop.induct) auto

text \<open>
  C8. The connection handler answers each request of a connection in turn until the
  peer closes. On a connection that carries two requests, with the identity for a
  handler, \<^verbatim>\<open>handle\<close> raises on \<^verbatim>\<open>buffer\<close> before it reads: both requests are left
  unread and no response is written (none ever is: \<open>handle_writes_nothing\<close>).
\<close>

theorem handle_answers_nothing:
  "handle echo two_requests = (Raise (UnboundLocalError ''buffer''), two_requests)"
  by (simp add: handle_def two_requests_def)

section \<open>The mutation lock\<close>

lemma adderrordetection_keeps_lock: "lock_held (snd (adderrordetection g m w s))"
  by (simp add: adderrordetection_def acquire_def)

lemma mergecorrection_keeps_lock: "lock_held (snd (mergecorrection g m n ws s))"
  by (simp add: mergecorrection_def acquire_def split: list.splits option.splits)

lemma addwordsuggestions_shipped:
  "lock_held (snd (addwordsuggestions shipped m w sg s))"
  "doc (snd (addwordsuggestions shipped m w sg s)) = doc s"
  by (simp_all add: addwordsuggestions_def acquire_def shipped_def)

lemma splitcorrection_shipped:
  "lock_held (snd (splitcorrection shipped m w ns s))"
  "doc (snd (splitcorrection shipped m w ns s)) = doc s"
  by (simp_all add: splitcorrection_def acquire_def shipped_def)

text \<open>
  C7. Each structural edit takes the mutation lock, writes, and releases the lock at
  once. \<^verbatim>\<open>addwordsuggestions\<close> on a free lock raises between \<^verbatim>\<open>acquire\<close> and
  \<^verbatim>\<open>release\<close>: nothing is written and the lock stays held, so that the next edit
  never returns. \<^verbatim>\<open>mergecorrection\<close> on a word outside any sentence raises with the
  lock held as well, whatever the module-level names are bound to.
\<close>

theorem edit_leaves_lock_held:
  "addwordsuggestions shipped (Module_init ''m'' no_settings) helo [''hello''] fresh
   = (Raise (NameError ''suggestion''), fresh\<lparr>lock_held := True\<rparr>)
   \<and> fst (addwordsuggestions shipped (Module_init ''m'' no_settings) helo [''hello'']
            (fresh\<lparr>lock_held := True\<rparr>)) = Hang
   \<and> mergecorrection (shipped\<lparr>g_suggestion := Some [''hello''], g_datetime := True\<rparr>)
        (Module_init ''m'' no_settings) ''hello'' [helo] fresh
     = (Raise (Exception ''Expected sentence''), fresh\<lparr>lock_held := True\<rparr>)"
  by (simp add: addwordsuggestions_def mergecorrection_def acquire_def shipped_def fresh_def
      helo_def)

section \<open>The lexicon module\<close>

text \<open>\<^verbatim>\<open>findclosest\<close> leaves the module, its cache included, as it found it.\<close>

lemma findclosest_keeps_module: "snd (findclosest lev m w) = m"
  by (simp add: findclosest_def Let_def split: option.splits result.splits)

text \<open>
  Lines 89-94 behind the cache test of line 87: on a module whose \<^verbatim>\<open>_cache\<close> is
  assigned and holds no entry for the word, a word that is in the lexicon, or shorter
  than \<^verbatim>\<open>minlength\<close>, or longer than \<^verbatim>\<open>maxlength\<close>, gets \<^verbatim>\<open>False\<close> from
  \<^verbatim>\<open>findclosest\<close>, and \<^verbatim>\<open>run\<close> returns with module, document and lock
  unchanged.
\<close>

lemma findclosest_known_or_out_of_range:
  assumes "cache_attr m = Some c" and "map_of c (el_text word) = None"
    and "in_lexicon m (el_text word)
         \<or> int (length (el_text word)) < minlength (lsettings m)
         \<or> int (length (el_text word)) > maxlength (lsettings m)"
  shows "findclosest lev m (el_text word) = (Return NoSuggestions, m)
         \<and> lexicon_run lev g m word s = (Return (), m, s)"
proof -
  have "findclosest lev m (el_text word) = (Return NoSuggestions, m)"
    using assms by (auto simp add: findclosest_def Let_def)
  then show ?thesis
    by (simp add: lexicon_run_def truthy_def)
qed

lemma findclosest_known_or_out_of_range_example:
  "findclosest no_distance small_lexicon ''hello'' = (Return NoSuggestions, small_lexicon)
   \<and> lexicon_run no_distance shipped small_lexicon (worded ''hello'') fresh = (Return (), small_lexicon, fresh)
   \<and> findclosest no_distance small_lexicon ''helo'' = (Return NoSuggestions, small_lexicon)
   \<and> lexicon_run no_distance shipped small_lexicon (worded ''helo'') fresh = (Return (), small_lexicon, fresh)
   \<and> findclosest no_distance small_lexicon ''pneumonoultramicroscopic'' = (Return NoSuggestions, small_lexicon)"
proof -
  have a: "cache_attr small_lexicon = Some []"
    by (simp add: small_lexicon_def)
  have b: "map_of [] (el_text (worded t)) = None" for t
    by simp
  have known: "in_lexicon small_lexicon (el_text (worded ''hello''))
       \<or> int (length (el_text (worded ''hello''))) < minlength (lsettings small_lexicon)
       \<or> int (length (el_text (worded ''hello''))) > maxlength (lsettings small_lexicon)"
    by (simp add: in_lexicon_def small_lexicon_def worded_def)
  have short: "in_lexicon small_lexicon (el_text (worded ''helo''))
       \<or> int (length (el_text (worded ''helo''))) < minlength (lsettings small_lexicon)
       \<or> int (length (el_text (worded ''helo''))) > maxlength (lsettings small_lexicon)"
    by (simp add: small_lexicon_def worded_def)
  have long: "in_lexicon small_lexicon (el_text (worded ''pneumonoultramicroscopic''))
       \<or> int (length (el_text (worded ''pneumonoultramicroscopic''))) < minlength (lsettings small_lexicon)
       \<or> int (length (el_text (worded ''pneumonoultramicroscopic''))) > maxlength (lsettings small_lexicon)"
    by (simp add: small_lexicon_def worded_def)
  show ?thesis
    using findclosest_known_or_out_of_range [OF a b known, of no_distance shipped fresh]
      findclosest_known_or_out_of_range [OF a b short, of no_distance shipped fresh]
      findclosest_known_or_out_of_range [OF a b long, of no_distance shipped fresh]
    by (simp add: worded_def)
qed

text \<open>Line 87 reads \<^verbatim>\<open>self._cache\<close> before any other test.\<close>

lemma findclosest_unassigned_cache:
  "findclosest lev (m\<lparr>cache_attr := None\<rparr>) w
   = (Raise (AttributeError ''_cache''), m\<lparr>cache_attr := None\<rparr>)"
  by (simp add: findclosest_def)

text \<open>
  C10. For a word that is in the lexicon, or shorter than \<^verbatim>\<open>minlength\<close>, or longer
  than \<^verbatim>\<open>maxlength\<close>, \<^verbatim>\<open>findclosest\<close> returns \<^verbatim>\<open>False\<close> and \<^verbatim>\<open>run\<close>
  applies no edit. The only assignment of \<^verbatim>\<open>_cache\<close> is line 59 of \<^verbatim>\<open>load\<close>,
  which raises on the name \<^verbatim>\<open>collections\<close>. On the module that leaves, a word of
  four characters and one of twenty-four make \<^verbatim>\<open>findclosest\<close> raise
  \<^verbatim>\<open>AttributeError\<close> on line 87, and so does a word of the lexicon once the
  lexicon holds it; \<^verbatim>\<open>run\<close> ends with the same exception, the document and the
  lock untouched.
\<close>

theorem findclosest_raises_without_cache:
  "findclosest lev unloaded ''helo'' = (Raise (AttributeError ''_cache''), unloaded)
   \<and> findclosest lev unloaded ''pneumonoultramicroscopic''
     = (Raise (AttributeError ''_cache''), unloaded)
   \<and> in_lexicon (unloaded\<lparr>lexicon := [(''hello'', 20000)]\<rparr>) ''hello''
   \<and> findclosest lev (unloaded\<lparr>lexicon := [(''hello'', 20000)]\<rparr>) ''hello''
     = (Raise (AttributeError ''_cache''), unloaded\<lparr>lexicon := [(''hello'', 20000)]\<rparr>)
   \<and> lexicon_run lev shipped unloaded (worded ''helo'') fresh
     = (Raise (AttributeError ''_cache''), unloaded, fresh)"
  by (simp add: findclosest_def lexicon_run_def unloaded_def in_lexicon_def worded_def)

end
